theory Spec2Isabelle
  imports Main "HOL-Library.Word"
begin

section \<open>Raw frames (base\_frame.h)\<close>

type_synonym byte = "8 word"

datatype frame_source_t = SOURCE_UNKNOWN | SOURCE_HEATER | SOURCE_CONTROLLER | SOURCE_LOCAL

text \<open>
  \<^verbatim>\<open>hp_packetdata_t\<close> is declared in Schema.h; base\_frame.h uses its fixed byte array
  \<^verbatim>\<open>data\<close> and its length field \<^verbatim>\<open>data_len\<close>. The array is a list whose length is the
  capacity \<^verbatim>\<open>sizeof(packet.data)\<close>.
\<close>

record hp_packetdata_t =
  data :: "byte list"
  data_len :: nat

text \<open>
  A member whose name ends in an underscore in the source (\<^verbatim>\<open>source_\<close>, \<^verbatim>\<open>data_\<close>, ...)
  carries the suffix \<open>f\<close> here (\<open>source_f\<close>, \<open>data_f\<close>, ...).
\<close>

record BaseFrame =
  packet :: hp_packetdata_t
  transmitBitIndex :: nat
  finalized :: bool
  source_f :: frame_source_t
  frame_time_ms_f :: "32 word"
  frame_age_ms_f :: "32 word"
  type_id_f :: nat
  byte_signature_f :: "byte option"
  prev_f :: "hp_packetdata_t option"

text \<open>
  \<^verbatim>\<open>BaseFrame &operator=(const unsigned char (&base_data)[N])\<close>. The source array is the list
  \<open>base_data\<close>, \<open>N\<close> its length. \<^verbatim>\<open>memcpy\<close> overwrites the first \<open>data_len\<close> bytes of the
  buffer and leaves the others. \<^verbatim>\<open>set_frame_time_ms()\<close> stores the current time, which is
  the argument \<open>now\<close>.
\<close>

definition assign_bytes :: "32 word \<Rightarrow> byte list \<Rightarrow> BaseFrame \<Rightarrow> BaseFrame" where
  "assign_bytes now base_data this =
     (let N = length base_data;
          cap = length (data (packet this));
          len = (if N \<le> cap then N else cap);
          pkt = (packet this)\<lparr>data_len := len\<rparr>;
          pkt = pkt\<lparr>data := take len base_data @ drop len (data pkt)\<rparr>
      in this\<lparr>packet := pkt, frame_time_ms_f := now\<rparr>)"


section \<open>Typed frames: the members generated by CLASS\_DEFAULT\_IMPL\<close>

text \<open>
  A typed frame is a \<^verbatim>\<open>BaseFrame\<close> with two optional payloads of the frame's payload type
  \<open>'p\<close>. The members of the base class are the field \<open>base\<close>.
\<close>

record 'p typed_frame =
  base :: BaseFrame
  data_f :: "'p option"
  prev_data_f :: "'p option"

text \<open>
  The default constructor \<^verbatim>\<open>DerivedFrameClass() : BaseFrame(), data_(), prev_data_()\<close>.
  \<^verbatim>\<open>BaseFrame()\<close> is defined in base\_frame.cpp; the base object it builds is the argument.
\<close>

definition new_frame :: "BaseFrame \<Rightarrow> 'p typed_frame" where
  "new_frame b = \<lparr>base = b, data_f = None, prev_data_f = None\<rparr>"

text \<open>
  The constructor from a byte array,
  \<^verbatim>\<open>DerivedFrameClass(const unsigned char (&cmdTrame)[N]) : BaseFrame(cmdTrame), data_(), prev_data_()\<close>,
  whose body decodes the packet into \<^verbatim>\<open>data_\<close>. \<^verbatim>\<open>BaseFrame(cmdTrame)\<close> is \<^verbatim>\<open>BaseFrame()\<close>
  followed by the assignment of the array.
\<close>

definition new_frame_bytes ::
  "(hp_packetdata_t \<Rightarrow> 'p) \<Rightarrow> 32 word \<Rightarrow> byte list \<Rightarrow> BaseFrame \<Rightarrow> 'p typed_frame" where
  "new_frame_bytes as_type now cmdTrame b =
     (let this = \<lparr>base = assign_bytes now cmdTrame b, data_f = None, prev_data_f = None\<rparr>
      in this\<lparr>data_f := Some (as_type (packet (base this)))\<rparr>)"

text \<open>
  \<^verbatim>\<open>stage\<close> calls \<^verbatim>\<open>BaseFrame::stage(base)\<close> and then decodes \<^verbatim>\<open>this->packet\<close> with
  \<^verbatim>\<open>as_type<type_name>()\<close>. Both are defined outside base\_frame.h (base\_frame.cpp,
  Schema.h) and are the arguments \<open>BaseFrame_stage\<close> and \<open>as_type\<close>. \<^verbatim>\<open>BaseFrame::stage\<close>
  is a member of the base class: it acts on the base object and cannot name the payloads
  of the derived class.
\<close>

definition stage ::
  "(BaseFrame \<Rightarrow> BaseFrame \<Rightarrow> BaseFrame) \<Rightarrow> (hp_packetdata_t \<Rightarrow> 'p) \<Rightarrow>
     BaseFrame \<Rightarrow> 'p typed_frame \<Rightarrow> 'p typed_frame" where
  "stage BaseFrame_stage as_type b this =
     (let this = this\<lparr>base := BaseFrame_stage b (base this)\<rparr>
      in this\<lparr>data_f := Some (as_type (packet (base this)))\<rparr>)"

definition transfer :: "'p typed_frame \<Rightarrow> 'p typed_frame" where
  "transfer this = (if data_f this \<noteq> None then this\<lparr>prev_data_f := data_f this\<rparr> else this)"

text \<open>\<open>ne\<close> is \<^verbatim>\<open>operator!=\<close> of the payload type.\<close>

definition is_changed :: "('p \<Rightarrow> 'p \<Rightarrow> bool) \<Rightarrow> 'p typed_frame \<Rightarrow> bool" where
  "is_changed ne this =
     (case prev_data_f this of
        None \<Rightarrow> True
      | Some p \<Rightarrow> (case data_f this of None \<Rightarrow> True | Some d \<Rightarrow> ne d p))"

definition has_previous_data :: "'p typed_frame \<Rightarrow> bool" where
  "has_previous_data this = (data_f this \<noteq> None \<and> prev_data_f this \<noteq> None)"

text \<open>
  Modelled from the spec: \<^verbatim>\<open>BaseFrame::stage\<close> is defined in base\_frame.cpp, which is not
  among the sources. The spec (4.4) says of \<^verbatim>\<open>stage(rawFrame)\<close> that it "copies the raw
  bytes in".
\<close>

definition BaseFrame_stage :: "BaseFrame \<Rightarrow> BaseFrame \<Rightarrow> BaseFrame" where
  "BaseFrame_stage b this = this\<lparr>packet := packet b\<rparr>"

section \<open>The Clock payload (FrameClock.h)\<close>

record clock_time =
  id_byte :: byte
  reserved1 :: byte
  reserved2 :: byte
  year :: byte
  month :: byte
  day :: byte
  hour :: byte
  minute :: byte
  reserved3 :: byte
  reserved4 :: byte

text \<open>
  The struct is packed and every member is a \<^verbatim>\<open>uint8_t\<close>: its object representation is
  its members in the order of declaration, one byte each, and its size is their number.
\<close>

definition clock_time_bytes :: "clock_time \<Rightarrow> byte list" where
  "clock_time_bytes c =
     [id_byte c, reserved1 c, reserved2 c, year c, month c, day c, hour c, minute c,
      reserved3 c, reserved4 c]"

definition clock_time_members :: "(string \<times> nat) list" where
  "clock_time_members =
     [(''id'', 1), (''reserved1'', 1), (''reserved2'', 1), (''year'', 1), (''month'', 1),
      (''day'', 1), (''hour'', 1), (''minute'', 1), (''reserved3'', 1), (''reserved4'', 1)]"

definition sizeof_packed :: "(string \<times> nat) list \<Rightarrow> nat" where
  "sizeof_packed members = sum_list (map snd members)"

definition sizeof_clock_time_t :: nat where
  "sizeof_clock_time_t = sizeof_packed clock_time_members"

text \<open>
  \<^verbatim>\<open>static_assert(sizeof(clock_time_t) == frame_data_length - 2, ...)\<close>. The constant
  \<^verbatim>\<open>frame_data_length\<close> is declared in Schema.h and is the argument.
\<close>

definition clock_time_static_assert :: "nat \<Rightarrow> bool" where
  "clock_time_static_assert frame_data_length =
     (int sizeof_clock_time_t = int frame_data_length - 2)"

definition clock_time_eq :: "clock_time \<Rightarrow> clock_time \<Rightarrow> bool" where
  "clock_time_eq this other =
     (id_byte this = id_byte other \<and> year this = year other \<and> month this = month other \<and>
      day this = day other \<and> hour this = hour other \<and> minute this = minute other)"

definition clock_time_ne :: "clock_time \<Rightarrow> clock_time \<Rightarrow> bool" where
  "clock_time_ne this other = (\<not> clock_time_eq this other)"

subsection \<open>decode\<close>




subsection \<open>format\<close>

definition digit_char :: "nat \<Rightarrow> char" where
  "digit_char d = ''0123456789'' ! d"

fun dec :: "nat \<Rightarrow> string" where
  "dec n = (if n < 10 then [digit_char n] else dec (n div 10) @ [digit_char (n mod 10)])"

declare dec.simps [simp del]

text \<open>\<^verbatim>\<open>std::setw(w) << std::setfill(c)\<close> before one insertion: padding on the left.\<close>

definition setw_setfill :: "nat \<Rightarrow> char \<Rightarrow> string \<Rightarrow> string" where
  "setw_setfill w c s = replicate (w - length s) c @ s"

definition clock_time_format :: "clock_time \<Rightarrow> string" where
  "clock_time_format this =
     setw_setfill 4 (CHR ''0'') (dec (unat (year this))) @ ''/'' @
     setw_setfill 2 (CHR ''0'') (dec (unat (month this))) @ ''/'' @
     setw_setfill 2 (CHR ''0'') (dec (unat (day this))) @ '' - '' @
     setw_setfill 2 (CHR ''0'') (dec (unat (hour this))) @ '':'' @
     setw_setfill 2 (CHR ''0'') (dec (unat (minute this)))"

subsection \<open>diff\<close>

text \<open>
  Modelled from the spec: the class \<^verbatim>\<open>CS\<close> is declared in CS.h, which is not among the
  sources. The spec (4.5) describes the text built by \<^verbatim>\<open>diff\<close> as emitted piece by piece:
  a \<^verbatim>\<open>CS\<close> holds the flag given to \<^verbatim>\<open>set_changed_base_color\<close> and the text inserted so
  far, and \<^verbatim>\<open><<\<close> appends. The constants \<^verbatim>\<open>CS::invert\<close> and \<^verbatim>\<open>CS::invert_rst\<close> (the
  highlight marker pair) and the rendering \<^verbatim>\<open>str()\<close> are the fields of \<open>CS_h\<close>, arguments
  of every function that uses them.
\<close>

record CS =
  changed_base_color :: bool
  content :: string

record CS_h =
  invert :: string
  invert_rst :: string
  str :: "CS \<Rightarrow> string"

definition CS_new :: CS where
  "CS_new = \<lparr>changed_base_color = False, content = []\<rparr>"

definition set_changed_base_color :: "bool \<Rightarrow> CS \<Rightarrow> CS" where
  "set_changed_base_color changed cs = cs\<lparr>changed_base_color := changed\<rparr>"

definition cs_put :: "string \<Rightarrow> CS \<Rightarrow> CS" where
  "cs_put s cs = cs\<lparr>content := content cs @ s\<rparr>"

text \<open>The body of the loop of \<^verbatim>\<open>diff\<close> at index \<open>i\<close>.\<close>

definition diff_step :: "string \<Rightarrow> string \<Rightarrow> string \<Rightarrow> string \<Rightarrow> nat \<Rightarrow> CS \<Rightarrow> CS" where
  "diff_step cs_inv cs_inv_rst ref cur i cs =
     (if ref ! i \<noteq> cur ! i
      then cs_put cs_inv_rst (cs_put [cur ! i] (cs_put cs_inv cs))
      else cs_put [cur ! i] cs)"

text \<open>
  \<^verbatim>\<open>diff\<close> from the declaration of \<^verbatim>\<open>cs\<close> to the insertion of the separator, on the two
  formatted strings: the stream before \<^verbatim>\<open>cs.str()\<close>.
\<close>

definition diff_stream :: "CS_h \<Rightarrow> string \<Rightarrow> string \<Rightarrow> string \<Rightarrow> CS" where
  "diff_stream lib ref cur separator =
     (let cs = CS_new;
          changed = (ref \<noteq> cur);
          cs = set_changed_base_color changed cs;
          cs_inv = (if changed then invert lib else []);
          cs_inv_rst = (if changed then invert_rst lib else []);
          n = (if length ref < length cur then length ref else length cur);
          cs = fold (diff_step cs_inv cs_inv_rst ref cur) [0..<n] cs;
          cs = (if length cur > n then cs_put (drop n cur) cs else cs)
      in cs_put separator cs)"

definition clock_time_diff :: "CS_h \<Rightarrow> clock_time \<Rightarrow> clock_time \<Rightarrow> string \<Rightarrow> string" where
  "clock_time_diff lib this reference separator =
     (let ref = clock_time_format reference;
          cur = clock_time_format this
      in str lib (diff_stream lib ref cur separator))"

section \<open>The Clock frame (FrameClock.cpp)\<close>

text \<open>
  \<^verbatim>\<open>heat_pump_data_t\<close> is declared in Schema.h; \<^verbatim>\<open>parse\<close> writes its member \<^verbatim>\<open>time\<close>. The
  other members are the extension of the record.
\<close>

record heat_pump_data_t =
  time :: int


text \<open>\<^verbatim>\<open>format(const clock_time_t &val, const clock_time_t &ref)\<close>.\<close>

definition FrameClock_format_val :: "CS_h \<Rightarrow> clock_time \<Rightarrow> clock_time \<Rightarrow> string" where
  "FrameClock_format_val lib val ref = clock_time_diff lib val ref []"

definition FrameClock_format_prev :: "CS_h \<Rightarrow> clock_time typed_frame \<Rightarrow> string" where
  "FrameClock_format_prev lib this =
     (case prev_data_f this of
        None \<Rightarrow> ''N/A''
      | Some p \<Rightarrow> FrameClock_format_val lib p p)"

text \<open>\<^verbatim>\<open>format(bool no_diff)\<close>; \<^verbatim>\<open>value_or(cur)\<close> is the inner case.\<close>

definition FrameClock_format :: "CS_h \<Rightarrow> bool \<Rightarrow> clock_time typed_frame \<Rightarrow> string" where
  "FrameClock_format lib no_diff this =
     (case data_f this of
        None \<Rightarrow> ''N/A''
      | Some cur \<Rightarrow>
          (let ref = (if no_diff then cur
                      else (case prev_data_f this of Some p \<Rightarrow> p | None \<Rightarrow> cur))
           in FrameClock_format_val lib cur ref))"

text \<open>
  \<^verbatim>\<open>control\<close> is not \<^verbatim>\<open>const\<close>: it returns its result and the frame after the call. The
  result \<^verbatim>\<open>esphome::nullopt\<close> is \<open>None\<close>; \<open>'call\<close> is \<^verbatim>\<open>HWPCall\<close> (hwp\_call.h).
\<close>

definition FrameClock_control ::
  "'call \<Rightarrow> clock_time typed_frame \<Rightarrow> BaseFrame option \<times> clock_time typed_frame" where
  "FrameClock_control call this = (None, this)"

section \<open>Terms of the statements\<close>

text \<open>
  The walk of \<^verbatim>\<open>diff\<close> over the aligned characters of the reference and the current
  string: a character of the current string that differs from the reference's is wrapped
  in the marker pair, an equal one is emitted as it is. \<open>zip\<close> stops at the end of the
  shorter string.
\<close>

definition marked :: "CS_h \<Rightarrow> string \<Rightarrow> string \<Rightarrow> string" where
  "marked lib ref cur =
     concat (map (\<lambda>(r, c). if r \<noteq> c then invert lib @ [c] @ invert_rst lib else [c])
       (zip ref cur))"

text \<open>
  The payloads whose month, day, hour and minute counters have at most two decimal
  digits.
\<close>

definition two_digit_counters :: "clock_time \<Rightarrow> bool" where
  "two_digit_counters c =
     (unat (month c) < 100 \<and> unat (day c) < 100 \<and> unat (hour c) < 100 \<and>
      unat (minute c) < 100)"

text \<open>
  The spec's words (4.5): "if lengths differ, append the remainder of the longer string
  unmarked".
\<close>

definition remainder_of_longer :: "string \<Rightarrow> string \<Rightarrow> string" where
  "remainder_of_longer ref cur =
     (if length ref < length cur then drop (length ref) cur else drop (length cur) ref)"

subsection \<open>Concrete values of the examples\<close>

definition frame0 :: BaseFrame where
  "frame0 = \<lparr>packet = \<lparr>data = replicate 12 0, data_len = 0\<rparr>, transmitBitIndex = 0,
             finalized = False, source_f = SOURCE_UNKNOWN, frame_time_ms_f = 0,
             frame_age_ms_f = 0, type_id_f = 0, byte_signature_f = Some 0, prev_f = None\<rparr>"

definition raw_frame :: "byte list \<Rightarrow> BaseFrame" where
  "raw_frame bytes = frame0\<lparr>packet := \<lparr>data = bytes, data_len = length bytes\<rparr>\<rparr>"

text \<open>A marker pair that can be read, and the rendering that returns the text inserted.\<close>

definition lib0 :: CS_h where
  "lib0 = \<lparr>invert = ''['', invert_rst = '']'', str = content\<rparr>"

text \<open>
  Clock payloads: 24/1/2 3:04 and 3:05; and two whose month counters, 5 and 100, have two
  and three decimal digits.
\<close>

definition clock_0304 :: clock_time where
  "clock_0304 =
     \<lparr>id_byte = 0xCF, reserved1 = 0, reserved2 = 0, year = 24, month = 1, day = 2, hour = 3,
      minute = 4, reserved3 = 0, reserved4 = 0\<rparr>"

definition clock_0305 :: clock_time where
  "clock_0305 = clock_0304\<lparr>minute := 5\<rparr>"

definition clock_short :: clock_time where
  "clock_short =
     \<lparr>id_byte = 0xCF, reserved1 = 0, reserved2 = 0, year = 0, month = 5, day = 0, hour = 0,
      minute = 7, reserved3 = 0, reserved4 = 0\<rparr>"

definition clock_long :: clock_time where
  "clock_long = clock_short\<lparr>month := 100, minute := 3\<rparr>"

text \<open>24/1/2 3:10 and the same with the minute counter 100.\<close>

definition clock_0310 :: clock_time where
  "clock_0310 = clock_0304\<lparr>minute := 10\<rparr>"

definition clock_03100 :: clock_time where
  "clock_03100 = clock_0304\<lparr>minute := 100\<rparr>"

text \<open>
  A decoder for the examples: the members of the packed struct read in order from the
  first ten bytes of the buffer.
\<close>

definition clock_time_of_bytes :: "hp_packetdata_t \<Rightarrow> clock_time" where
  "clock_time_of_bytes pkt =
     (let d = data pkt
      in \<lparr>id_byte = d ! 0, reserved1 = d ! 1, reserved2 = d ! 2, year = d ! 3, month = d ! 4,
          day = d ! 5, hour = d ! 6, minute = d ! 7, reserved3 = d ! 8, reserved4 = d ! 9\<rparr>)"

text \<open>
  Three raw Clock frames: the second differs from the first in reserved bytes only, the
  third in the minute.
\<close>

definition ex_a :: "byte list" where
  "ex_a = [0xCF, 0, 0, 24, 1, 2, 3, 4, 0, 0, 0, 0]"

definition ex_a_reserved :: "byte list" where
  "ex_a_reserved = [0xCF, 9, 0, 24, 1, 2, 3, 4, 0, 7, 0, 0]"

definition ex_b :: "byte list" where
  "ex_b = [0xCF, 0, 0, 24, 1, 2, 3, 5, 0, 0, 0, 0]"

text \<open>An instance of \<open>BaseFrame_stage\<close> for the examples.\<close>

definition copy_packet :: "BaseFrame \<Rightarrow> BaseFrame \<Rightarrow> BaseFrame" where
  "copy_packet b this = this\<lparr>packet := packet b, source_f := source_f b\<rparr>"

subsection \<open>The frames a program can build\<close>

text \<open>
  The states of a typed frame that the members generated by \<^verbatim>\<open>CLASS_DEFAULT_IMPL\<close>
  produce: the default constructor and the constructor from a byte array (the constructor
  from a \<^verbatim>\<open>BaseFrame\<close> is the default state staged, the copy constructor copies a state),
  \<^verbatim>\<open>stage\<close>, \<^verbatim>\<open>transfer\<close>, a write through the reference that \<^verbatim>\<open>data()\<close> returns to the
  current payload, and any write to the base object (\<^verbatim>\<open>finalize\<close> and the members of
  \<^verbatim>\<open>BaseFrame\<close>). None of them resets \<^verbatim>\<open>data_\<close>.
\<close>

inductive reachable ::
  "(BaseFrame \<Rightarrow> BaseFrame \<Rightarrow> BaseFrame) \<Rightarrow> (hp_packetdata_t \<Rightarrow> 'p) \<Rightarrow> 'p typed_frame \<Rightarrow> bool"
  for bs :: "BaseFrame \<Rightarrow> BaseFrame \<Rightarrow> BaseFrame" and at :: "hp_packetdata_t \<Rightarrow> 'p" where
  r_new: "reachable bs at (new_frame b)"
| r_bytes: "reachable bs at (new_frame_bytes at now cmdTrame b)"
| r_stage: "reachable bs at f \<Longrightarrow> reachable bs at (stage bs at b f)"
| r_transfer: "reachable bs at f \<Longrightarrow> reachable bs at (transfer f)"
| r_data: "reachable bs at f \<Longrightarrow> data_f f = Some d \<Longrightarrow> reachable bs at (f\<lparr>data_f := Some v\<rparr>)"
| r_base: "reachable bs at f \<Longrightarrow> reachable bs at (f\<lparr>base := b\<rparr>)"

section \<open>Assignment of a byte array to a frame buffer\<close>

lemma assign_bytes_packet:
  "packet (assign_bytes now src this) =
     \<lparr>data = take (min (length src) (length (data (packet this)))) src
              @ drop (min (length src) (length (data (packet this)))) (data (packet this)),
      data_len = min (length src) (length (data (packet this)))\<rparr>"
  by (simp add: assign_bytes_def Let_def min_def)

text \<open>
  C8. After assigning a byte array, the stored length is at most the capacity of the
  buffer (which the assignment does not change). A source no larger than the capacity is
  copied whole and the length is its size; a larger source is cut to the capacity: the
  length is the capacity and the buffer holds the first capacity bytes of the source.
\<close>

theorem assign_bytes_clamped:
  fixes now :: "32 word" and src :: "byte list" and this :: BaseFrame
  defines "cap \<equiv> length (data (packet this))"
  defines "pkt' \<equiv> packet (assign_bytes now src this)"
  shows "data_len pkt' \<le> cap \<and> length (data pkt') = cap
       \<and> (length src \<le> cap \<longrightarrow>
            data_len pkt' = length src \<and> take (data_len pkt') (data pkt') = src
            \<and> drop (length src) (data pkt') = drop (length src) (data (packet this)))
       \<and> (cap < length src \<longrightarrow>
            data_len pkt' = cap \<and> data pkt' = take cap src)"
  unfolding cap_def pkt'_def assign_bytes_packet
  by (simp add: min_def)

theorem assign_bytes_clamped_witness:
  "(let this = \<lparr>packet = \<lparr>data = [0, 0, 0], data_len = 0\<rparr>, transmitBitIndex = 0,
                finalized = False, source_f = SOURCE_UNKNOWN, frame_time_ms_f = 0,
                frame_age_ms_f = 0, type_id_f = 0, byte_signature_f = Some 0, prev_f = None\<rparr>
    in packet (assign_bytes 7 [1, 2] this) = \<lparr>data = [1, 2, 0], data_len = 2\<rparr>
     \<and> packet (assign_bytes 7 [1, 2, 3, 4, 5] this) = \<lparr>data = [1, 2, 3], data_len = 3\<rparr>)"
  using assign_bytes_clamped
    [of 7 "[1, 2]" "\<lparr>packet = \<lparr>data = [0, 0, 0], data_len = 0\<rparr>, transmitBitIndex = 0,
          finalized = False, source_f = SOURCE_UNKNOWN, frame_time_ms_f = 0,
          frame_age_ms_f = 0, type_id_f = 0, byte_signature_f = Some 0, prev_f = None\<rparr>"]
    assign_bytes_clamped
    [of 7 "[1, 2, 3, 4, 5]" "\<lparr>packet = \<lparr>data = [0, 0, 0], data_len = 0\<rparr>,
          transmitBitIndex = 0, finalized = False, source_f = SOURCE_UNKNOWN, frame_time_ms_f = 0,
          frame_age_ms_f = 0, type_id_f = 0, byte_signature_f = Some 0, prev_f = None\<rparr>"]
  by (simp add: assign_bytes_def Let_def)

section \<open>Change tracking\<close>

lemma is_changed_iff:
  "is_changed ne this =
     (prev_data_f this = None \<or> data_f this = None \<or>
      (\<exists>d p. data_f this = Some d \<and> prev_data_f this = Some p \<and> ne d p))"
  by (simp add: is_changed_def split: option.splits)

lemma stage_fields:
  "base (stage bs at b this) = bs b (base this)"
  "data_f (stage bs at b this) = Some (at (packet (bs b (base this))))"
  "prev_data_f (stage bs at b this) = prev_data_f this"
  by (simp_all add: stage_def Let_def)

lemma transfer_fields:
  "base (transfer this) = base this"
  "data_f (transfer this) = data_f this"
  "prev_data_f (transfer this) = (if data_f this \<noteq> None then data_f this else prev_data_f this)"
  by (simp_all add: transfer_def)

text \<open>
  C1. For every payload type, \<^verbatim>\<open>is_changed()\<close> is true when there is no previous payload or
  no current payload, and otherwise it is \<^verbatim>\<open>current != previous\<close>. For the Clock payload
  \<^verbatim>\<open>!=\<close> compares the members id, year, month, day, hour and minute and no reserved byte.
  A frame built by the default constructor is changed. After stage, transfer and a second
  stage, the frame is changed exactly when the payload decoded by the second stage differs
  from the payload decoded by the first in one of the compared members: it is unchanged
  for an identical payload and changed when a compared member differs.
\<close>

theorem is_changed_tracking:
  fixes ne :: "'p \<Rightarrow> 'p \<Rightarrow> bool" and this :: "'p typed_frame"
    and g :: "clock_time typed_frame"
  shows
    "is_changed ne this =
       (prev_data_f this = None \<or> data_f this = None \<or>
        (\<exists>d p. data_f this = Some d \<and> prev_data_f this = Some p \<and> ne d p))
     \<and> clock_time_ne c c' =
         (id_byte c \<noteq> id_byte c' \<or> year c \<noteq> year c' \<or> month c \<noteq> month c' \<or>
          day c \<noteq> day c' \<or> hour c \<noteq> hour c' \<or> minute c \<noteq> minute c')
     \<and> is_changed ne (new_frame b)
     \<and> (let f1 = stage bs at ba g;
             f3 = stage bs at bb (transfer f1);
             p1 = at (packet (base f1));
             p2 = at (packet (base f3))
         in data_f f1 = Some p1 \<and> prev_data_f f3 = Some p1 \<and> data_f f3 = Some p2
          \<and> is_changed clock_time_ne f3 = clock_time_ne p2 p1
          \<and> (p2 = p1 \<longrightarrow> \<not> is_changed clock_time_ne f3)
          \<and> (id_byte p2 \<noteq> id_byte p1 \<or> year p2 \<noteq> year p1 \<or> month p2 \<noteq> month p1 \<or>
              day p2 \<noteq> day p1 \<or> hour p2 \<noteq> hour p1 \<or> minute p2 \<noteq> minute p1
              \<longrightarrow> is_changed clock_time_ne f3))"
proof -
  have ne: "clock_time_ne c c' =
         (id_byte c \<noteq> id_byte c' \<or> year c \<noteq> year c' \<or> month c \<noteq> month c' \<or>
          day c \<noteq> day c' \<or> hour c \<noteq> hour c' \<or> minute c \<noteq> minute c')" for c c'
    by (auto simp add: clock_time_ne_def clock_time_eq_def)
  have fresh: "is_changed ne (new_frame b)"
    by (simp add: is_changed_def new_frame_def)
  have seq: "is_changed clock_time_ne (stage bs at bb (transfer (stage bs at ba g)))
        = clock_time_ne (at (packet (base (stage bs at bb (transfer (stage bs at ba g))))))
            (at (packet (base (stage bs at ba g))))"
    by (simp add: is_changed_def stage_fields transfer_fields)
  have same: "\<not> clock_time_ne p p" for p
    by (simp add: clock_time_ne_def clock_time_eq_def)
  show ?thesis
    unfolding Let_def
    apply (intro conjI)
            apply (rule is_changed_iff)
           apply (rule ne)
          apply (rule fresh)
         apply (simp add: stage_fields)
        apply (simp add: stage_fields transfer_fields)
       apply (simp add: stage_fields)
      apply (rule seq)
     apply (simp add: seq same)
    apply (simp only: seq ne)
    apply simp
    done
qed

text \<open>
  The frame \<open>ex_a\<close> staged into a new frame, transferred, and then: \<open>ex_a\<close> again
  (unchanged), \<open>ex_a_reserved\<close> (unchanged: only reserved bytes differ), \<open>ex_b\<close> (changed:
  the minute differs).
\<close>

theorem is_changed_tracking_witness:
  "(let f1 = stage copy_packet clock_time_of_bytes (raw_frame ex_a) (new_frame frame0)
    in is_changed clock_time_ne (new_frame frame0)
     \<and> is_changed clock_time_ne f1
     \<and> \<not> is_changed clock_time_ne
           (stage copy_packet clock_time_of_bytes (raw_frame ex_a) (transfer f1))
     \<and> \<not> is_changed clock_time_ne
           (stage copy_packet clock_time_of_bytes (raw_frame ex_a_reserved) (transfer f1))
     \<and> is_changed clock_time_ne
           (stage copy_packet clock_time_of_bytes (raw_frame ex_b) (transfer f1)))"
  using is_changed_tracking [where ne = clock_time_ne and b = frame0 and bs = copy_packet
      and at = clock_time_of_bytes and ba = "raw_frame ex_a" and bb = "raw_frame ex_b"
      and g = "new_frame frame0"
      and this = "stage copy_packet clock_time_of_bytes (raw_frame ex_a) (new_frame frame0)"]
  by (simp add: Let_def stage_def transfer_def is_changed_def new_frame_def copy_packet_def
      raw_frame_def frame0_def clock_time_of_bytes_def ex_a_def ex_b_def ex_a_reserved_def
      clock_time_ne_def clock_time_eq_def)

section \<open>transfer\<close>

text \<open>
  What \<^verbatim>\<open>transfer()\<close> does in any state: with a current payload the previous payload
  becomes the current one; without one nothing is written.
\<close>

lemma transfer_previous:
  "(data_f this \<noteq> None \<longrightarrow> prev_data_f (transfer this) = data_f this)
   \<and> (data_f this = None \<longrightarrow> prev_data_f (transfer this) = prev_data_f this)
   \<and> data_f (transfer this) = data_f this
   \<and> base (transfer this) = base this"
  by (simp add: transfer_def)

text \<open>A frame that a program can build never has a previous payload without a current one.\<close>

lemma reachable_previous_needs_current:
  "reachable bs at f \<Longrightarrow> data_f f = None \<Longrightarrow> prev_data_f f = None"
  by (induction rule: reachable.induct)
     (simp_all add: new_frame_def new_frame_bytes_def Let_def stage_fields transfer_fields
       split: if_splits)

text \<open>
  C6. For every typed frame that the constructors, \<^verbatim>\<open>stage\<close>, \<^verbatim>\<open>transfer\<close> and the other
  members can build, after \<^verbatim>\<open>transfer()\<close> the previous payload is the payload that was
  current immediately before the call, and the current payload is not changed. This
  includes the frames with no current payload: they have no previous payload either, and
  after \<^verbatim>\<open>transfer()\<close> both are absent.
\<close>

theorem transfer_previous_is_current:
  assumes "reachable bs at this"
  shows "prev_data_f (transfer this) = data_f this \<and> data_f (transfer this) = data_f this"
proof (cases "data_f this")
  case None
  with assms have "prev_data_f this = None"
    by (rule reachable_previous_needs_current)
  with None show ?thesis
    by (simp add: transfer_fields)
next
  case (Some d)
  then show ?thesis
    by (simp add: transfer_fields)
qed

text \<open>
  A new frame (no current payload), and the frame \<open>ex_a\<close> staged, transferred, and \<open>ex_b\<close>
  staged: after \<^verbatim>\<open>transfer()\<close> the previous payload is absent in the first and the payload
  of \<open>ex_b\<close> in the second.
\<close>

theorem transfer_previous_is_current_witness:
  "reachable copy_packet clock_time_of_bytes (new_frame frame0)
   \<and> prev_data_f (transfer (new_frame frame0 :: clock_time typed_frame)) = None
   \<and> reachable copy_packet clock_time_of_bytes
        (stage copy_packet clock_time_of_bytes (raw_frame ex_b)
          (transfer (stage copy_packet clock_time_of_bytes (raw_frame ex_a) (new_frame frame0))))
   \<and> prev_data_f (transfer
        (stage copy_packet clock_time_of_bytes (raw_frame ex_b)
          (transfer (stage copy_packet clock_time_of_bytes (raw_frame ex_a) (new_frame frame0)))))
       = Some clock_0305"
proof -
  have r0: "reachable copy_packet clock_time_of_bytes (new_frame frame0)"
    by (rule reachable.r_new)
  have r1: "reachable copy_packet clock_time_of_bytes
        (stage copy_packet clock_time_of_bytes (raw_frame ex_b)
          (transfer (stage copy_packet clock_time_of_bytes (raw_frame ex_a) (new_frame frame0))))"
    by (intro reachable.r_stage reachable.r_transfer reachable.r_new)
  have d0: "data_f (new_frame frame0 :: clock_time typed_frame) = None"
    by (simp add: new_frame_def)
  have d1: "data_f (stage copy_packet clock_time_of_bytes (raw_frame ex_b)
          (transfer (stage copy_packet clock_time_of_bytes (raw_frame ex_a) (new_frame frame0))))
       = Some clock_0305"
    by (simp add: stage_fields copy_packet_def raw_frame_def clock_time_of_bytes_def ex_b_def
        clock_0305_def clock_0304_def)
  show ?thesis
    using r0 r1 transfer_previous_is_current [OF r0] transfer_previous_is_current [OF r1]
    by (simp add: d0 d1)
qed

section \<open>stage\<close>

text \<open>
  C7. \<^verbatim>\<open>stage(rawFrame)\<close> sets the current payload to the payload decoded from the packet
  of the frame after \<^verbatim>\<open>BaseFrame::stage\<close>, and leaves the previous payload unchanged. With
  \<^verbatim>\<open>BaseFrame::stage\<close> as the spec describes it, the packet is the raw frame's: the raw bytes
  are copied in and the current payload is decoded from those bytes.
\<close>

theorem stage_sets_current:
  "data_f (stage bs as_type b this) = Some (as_type (packet (base (stage bs as_type b this))))
   \<and> prev_data_f (stage bs as_type b this) = prev_data_f this
   \<and> packet (base (stage BaseFrame_stage as_type b this)) = packet b
   \<and> data_f (stage BaseFrame_stage as_type b this) = Some (as_type (packet b))"
  by (simp add: stage_fields BaseFrame_stage_def)

section \<open>control\<close>

text \<open>
  C9. For every command request, \<^verbatim>\<open>FrameClock::control\<close> returns no outgoing frame and the
  frame after the call is the frame before it: neither the current nor the previous
  payload is changed.
\<close>

theorem FrameClock_control_absent:
  "fst (FrameClock_control call this) = None
   \<and> data_f (snd (FrameClock_control call this)) = data_f this
   \<and> prev_data_f (snd (FrameClock_control call this)) = prev_data_f this
   \<and> snd (FrameClock_control call this) = this"
  by (simp add: FrameClock_control_def)

section \<open>format without a current payload\<close>

text \<open>
  C10. When no current payload is present, \<^verbatim>\<open>format(no_diff)\<close> returns the string "N/A",
  for \<open>no_diff\<close> true and false.
\<close>

theorem FrameClock_format_absent:
  "data_f this = None \<Longrightarrow> FrameClock_format lib no_diff this = ''N/A''"
  by (simp add: FrameClock_format_def)

theorem FrameClock_format_absent_witness:
  "data_f (new_frame frame0 :: clock_time typed_frame) = None
   \<and> FrameClock_format lib0 True (new_frame frame0) = ''N/A''
   \<and> FrameClock_format lib0 False (new_frame frame0) = ''N/A''
   \<and> FrameClock_format lib0 False
        \<lparr>base = frame0, data_f = None, prev_data_f = Some clock_0304\<rparr> = ''N/A''"
  using FrameClock_format_absent [of "new_frame frame0" lib0 True]
    FrameClock_format_absent [of "new_frame frame0" lib0 False]
    FrameClock_format_absent
      [of "\<lparr>base = frame0, data_f = None, prev_data_f = Some clock_0304\<rparr>" lib0 False]
  by (simp add: new_frame_def)

section \<open>Size of the Clock payload\<close>

lemma sizeof_clock_time_t_value: "sizeof_clock_time_t = 10"
  by (simp add: sizeof_clock_time_t_def sizeof_packed_def clock_time_members_def)

text \<open>
  C3 as stated fails: the Clock payload struct is not 8 bytes, and with a declared frame
  length of 10 the static assertion does not hold.
\<close>

theorem clock_time_size_counterexample:
  "sizeof_clock_time_t \<noteq> 8 \<and> \<not> clock_time_static_assert 10"
  by (simp add: clock_time_static_assert_def sizeof_clock_time_t_value)

text \<open>
  C3, amended. The Clock payload struct has ten one-byte members and is 10 bytes; the
  static assertion \<^verbatim>\<open>sizeof(clock_time_t) == frame_data_length - 2\<close> holds exactly when the
  declared frame length is 12.
\<close>

theorem clock_time_size:
  "sizeof_clock_time_t = 10
   \<and> length (clock_time_bytes c) = sizeof_clock_time_t
   \<and> length clock_time_members = 10
   \<and> clock_time_static_assert frame_data_length = (frame_data_length = 12)"
  by (auto simp add: clock_time_static_assert_def sizeof_clock_time_t_value clock_time_bytes_def
      clock_time_members_def)

section \<open>parse\<close>



section \<open>Diff highlighting\<close>

text \<open>
  The loop of \<^verbatim>\<open>diff\<close> appends, for each index below \<open>n\<close>, the current character, wrapped
  in the two markers when it differs from the reference's.
\<close>

lemma fold_diff_step:
  "n \<le> length ref \<Longrightarrow> n \<le> length cur \<Longrightarrow>
   fold (diff_step a b ref cur) [0..<n] cs =
     cs\<lparr>content := content cs @
        concat (map (\<lambda>(r, c). if r \<noteq> c then a @ [c] @ b else [c])
          (zip (take n ref) (take n cur)))\<rparr>"
proof (induction n)
  case 0
  then show ?case by simp
next
  case (Suc n)
  then have "n < length ref" and "n < length cur" by simp_all
  then show ?case
    using Suc.IH
    by (simp add: take_Suc_conv_app_nth diff_step_def cs_put_def)
qed

lemma marks_same:
  "concat (map (\<lambda>(r, c). if r \<noteq> c then a @ [c] @ b else [c]) (zip xs xs)) = xs"
  by (induction xs) simp_all

lemma zip_take_min:
  "zip (take (min (length xs) (length ys)) xs) (take (min (length xs) (length ys)) ys) = zip xs ys"
  by (simp add: take_zip [symmetric])

lemma fold_diff_step_min:
  "fold (diff_step a b ref cur) [0..<min (length ref) (length cur)] cs =
     cs\<lparr>content := content cs @
        concat (map (\<lambda>(r, c). if r \<noteq> c then a @ [c] @ b else [c]) (zip ref cur))\<rparr>"
  using fold_diff_step [of "min (length ref) (length cur)" ref cur a b cs]
  by (simp only: zip_take_min min.cobounded1 min.cobounded2)

text \<open>
  The stream that \<^verbatim>\<open>diff\<close> renders. The markers are empty only when the two strings are
  equal, and then no character differs.
\<close>

lemma diff_stream_eq:
  "diff_stream lib ref cur sep =
     \<lparr>changed_base_color = (ref \<noteq> cur),
      content = marked lib ref cur @ drop (length ref) cur @ sep\<rparr>"
proof -
  have n: "(if length ref < length cur then length ref else length cur)
             = min (length ref) (length cur)"
    by (simp add: min_def)
  have r: "(if min (length ref) (length cur) < length cur
            then cs_put (drop (min (length ref) (length cur)) cur) cs else cs)
           = cs_put (drop (length ref) cur) cs" for cs
    by (simp add: min_def cs_put_def)
  show ?thesis
  proof (cases "ref = cur")
    case True
    then show ?thesis
      unfolding diff_stream_def Let_def n r fold_diff_step_min
      by (simp add: marks_same marked_def CS_new_def set_changed_base_color_def cs_put_def)
  next
    case False
    then show ?thesis
      unfolding diff_stream_def Let_def n r fold_diff_step_min
      by (simp add: marked_def CS_new_def set_changed_base_color_def cs_put_def)
  qed
qed

lemma zip_by_index:
  "zip xs ys = map (\<lambda>i. (xs ! i, ys ! i)) [0..<min (length xs) (length ys)]"
  by (rule nth_equalityI) simp_all

lemma marked_by_index:
  "marked lib ref cur =
     concat (map (\<lambda>i. if ref ! i \<noteq> cur ! i then invert lib @ [cur ! i] @ invert_rst lib
                       else [cur ! i])
       [0..<min (length ref) (length cur)])"
  unfolding marked_def
  by (subst zip_by_index) (simp add: comp_def)

lemma marked_same: "marked lib cur cur = cur"
  by (simp add: marked_def marks_same)

lemma format_0000_05: "clock_time_format clock_short = ''0000/05/00 - 00:07''"
  by code_simp

lemma format_0000_100: "clock_time_format clock_long = ''0000/100/00 - 00:03''"
  by code_simp

lemma format_0304: "clock_time_format clock_0304 = ''0024/01/02 - 03:04''"
  by code_simp

lemma format_0305: "clock_time_format clock_0305 = ''0024/01/02 - 03:05''"
  by code_simp


text \<open>
  C4 as stated fails when the reference string is the longer one. The month counter 100
  formats to three characters, so the reference \<open>clock_long\<close> formats to 19 characters and
  the current \<open>clock_short\<close> to 18: the remainder of the longer string is "3", and nothing
  follows the walk over the 18 common positions.
\<close>

theorem diff_reference_longer_counterexample:
  "(let cur = clock_time_format clock_short;
        ref = clock_time_format clock_long
    in cur = ''0000/05/00 - 00:07'' \<and> ref = ''0000/100/00 - 00:03''
     \<and> remainder_of_longer ref cur = ''3''
     \<and> content (diff_stream lib0 ref cur []) = marked lib0 ref cur
     \<and> content (diff_stream lib0 ref cur []) \<noteq> marked lib0 ref cur @ remainder_of_longer ref cur
     \<and> clock_time_diff lib0 clock_short clock_long []
         = ''0000/[0][5][/][0]0[ ][-][ ][0]0[:][0][7]'')"
  by (simp add: Let_def format_0000_05 format_0000_100 clock_time_diff_def diff_stream_eq
      remainder_of_longer_def marked_def lib0_def)

text \<open>
  C4, amended. After the walk over the common prefix length, \<^verbatim>\<open>diff\<close> appends the part of
  the current string beyond the length of the reference, unmarked, and then the
  separator. When the current string is the longer one this is the remainder of the
  longer string; when the reference is the longer one nothing is appended.
\<close>

theorem diff_stream_remainder:
  "changed_base_color (diff_stream lib ref cur sep) = (ref \<noteq> cur)
   \<and> content (diff_stream lib ref cur sep) = marked lib ref cur @ drop (length ref) cur @ sep
   \<and> (length ref < length cur \<longrightarrow>
        content (diff_stream lib ref cur sep)
          = marked lib ref cur @ remainder_of_longer ref cur @ sep)
   \<and> (length cur < length ref \<longrightarrow>
        content (diff_stream lib ref cur sep) = marked lib ref cur @ sep)"
  by (simp add: diff_stream_eq remainder_of_longer_def)

theorem diff_stream_remainder_witness:
  "(let cur = clock_time_format clock_short;
        ref = clock_time_format clock_long
    in length cur < length ref
     \<and> content (diff_stream lib0 ref cur []) = ''0000/[0][5][/][0]0[ ][-][ ][0]0[:][0][7]''
     \<and> content (diff_stream lib0 cur ref []) = ''0000/[1][0][0][/]0[0][ ][-][ ]0[0][:][0]3'')"
  using diff_stream_remainder [of lib0 "clock_time_format clock_long"
      "clock_time_format clock_short" "[]"]
    diff_stream_remainder [of lib0 "clock_time_format clock_short"
      "clock_time_format clock_long" "[]"]
  by (simp add: Let_def format_0000_05 format_0000_100 remainder_of_longer_def marked_def
      lib0_def)

subsection \<open>Width of a formatted Clock payload\<close>

text \<open>
  A counter below 100 fills its two-character field exactly, and the year, a byte, its
  four-character field: such payloads format to 18 characters, and \<^verbatim>\<open>diff\<close> of two of
  them has no remainder to append.
\<close>

lemma dec_length_1: "n < 10 \<Longrightarrow> length (dec n) = 1"
  by (subst dec.simps) simp

lemma dec_length_2: "10 \<le> n \<Longrightarrow> n < 100 \<Longrightarrow> length (dec n) = 2"
  by (subst dec.simps) (simp add: dec_length_1 less_mult_imp_div_less)

lemma dec_length_3: "100 \<le> n \<Longrightarrow> n < 1000 \<Longrightarrow> length (dec n) = 3"
  by (subst dec.simps) (simp add: dec_length_2 less_mult_imp_div_less le_div_geq)

lemma setw_2_length: "n < 100 \<Longrightarrow> length (setw_setfill 2 c (dec n)) = 2"
  using dec_length_1 [of n] dec_length_2 [of n]
  by (cases "n < 10") (simp_all add: setw_setfill_def)

lemma setw_4_length: "n < 1000 \<Longrightarrow> length (setw_setfill 4 c (dec n)) = 4"
  using dec_length_1 [of n] dec_length_2 [of n] dec_length_3 [of n]
  by (cases "n < 10"; cases "n < 100") (simp_all add: setw_setfill_def)

lemma unat_byte_less: "unat (b :: byte) < 1000"
  using unsigned_less [of b, where ?'a = nat] by simp

lemma clock_time_format_length:
  "unat (month c) < 100 \<Longrightarrow> unat (day c) < 100 \<Longrightarrow> unat (hour c) < 100 \<Longrightarrow>
   unat (minute c) < 100 \<Longrightarrow> length (clock_time_format c) = 18"
  by (simp add: clock_time_format_def setw_2_length setw_4_length unat_byte_less)

lemma diff_fixed_width:
  "length (clock_time_format p) = 18 \<Longrightarrow> length (clock_time_format cur) = 18 \<Longrightarrow>
   content (diff_stream lib (clock_time_format p) (clock_time_format cur) [])
     = marked lib (clock_time_format p) (clock_time_format cur)"
  by (simp add: diff_stream_eq)

lemma format_0310: "clock_time_format clock_0310 = ''0024/01/02 - 03:10''"
  by code_simp

lemma format_03100: "clock_time_format clock_03100 = ''0024/01/02 - 03:100''"
  by code_simp

lemma FrameClock_format_no_diff:
  "data_f this = Some cur \<Longrightarrow> no_diff \<or> prev_data_f this = None \<Longrightarrow>
   FrameClock_format lib no_diff this
     = str lib \<lparr>changed_base_color = False, content = clock_time_format cur\<rparr>"
  by (auto simp add: FrameClock_format_def FrameClock_format_val_def clock_time_diff_def
      Let_def diff_stream_eq marked_same)

lemma FrameClock_format_previous:
  "data_f this = Some cur \<Longrightarrow> \<not> no_diff \<Longrightarrow> prev_data_f this = Some p \<Longrightarrow>
   FrameClock_format lib no_diff this
     = str lib
         \<lparr>changed_base_color = (clock_time_format p \<noteq> clock_time_format cur),
          content = marked lib (clock_time_format p) (clock_time_format cur)
                    @ drop (length (clock_time_format p)) (clock_time_format cur)\<rparr>"
  by (simp add: FrameClock_format_def FrameClock_format_val_def clock_time_diff_def
      Let_def diff_stream_eq)

lemma two_digit_counters_length: "two_digit_counters c \<Longrightarrow> length (clock_time_format c) = 18"
  by (simp add: two_digit_counters_def clock_time_format_length)

text \<open>
  C5 as stated fails when the current value is longer than the previous one. With the
  previous minute counter 10 and the current one 100 the payloads differ and so do their
  formatted values, and \<^verbatim>\<open>format(false)\<close> wraps no character: it returns the same text as
  \<^verbatim>\<open>format(true)\<close>.
\<close>

theorem FrameClock_format_longer_current_counterexample:
  "(let f = \<lparr>base = frame0, data_f = Some clock_03100, prev_data_f = Some clock_0310\<rparr>
    in clock_time_ne clock_03100 clock_0310
     \<and> clock_time_format clock_0310 = ''0024/01/02 - 03:10''
     \<and> clock_time_format clock_03100 = ''0024/01/02 - 03:100''
     \<and> FrameClock_format lib0 False f = ''0024/01/02 - 03:100''
     \<and> FrameClock_format lib0 True f = ''0024/01/02 - 03:100'')"
proof -
  have "clock_time_ne clock_03100 clock_0310"
    by (simp add: clock_time_ne_def clock_time_eq_def clock_03100_def clock_0310_def)
  moreover have "FrameClock_format lib0 False
      \<lparr>base = frame0, data_f = Some clock_03100, prev_data_f = Some clock_0310\<rparr>
        = ''0024/01/02 - 03:100''"
    by (simp add: FrameClock_format_previous [of _ clock_03100 False clock_0310]
        format_0310 format_03100 marked_def lib0_def)
  moreover have "FrameClock_format lib0 True
      \<lparr>base = frame0, data_f = Some clock_03100, prev_data_f = Some clock_0310\<rparr>
        = ''0024/01/02 - 03:100''"
    by (simp add: FrameClock_format_no_diff [of _ clock_03100 True] format_03100 lib0_def)
  ultimately show ?thesis
    by (simp add: Let_def format_0310 format_03100)
qed

text \<open>
  C5, amended. With a current payload present: when \<open>no_diff\<close> is true or there is no
  previous payload, \<^verbatim>\<open>format\<close> renders the plain formatted current value, with no marker
  and the base colour flag unset. When \<open>no_diff\<close> is false and a previous payload is
  present, it renders the current value in which each character that differs from the
  character of the formatted previous value at the same position is wrapped in the marker
  pair and each equal character is unmarked, followed, unmarked, by the characters of the
  current value beyond the length of the previous one. When the month, day, hour and
  minute counters of both payloads are below 100 there are no such characters, and
  exactly the differing characters are wrapped.
\<close>

theorem FrameClock_format_diff:
  "data_f this = Some cur \<longrightarrow>
     (no_diff \<or> prev_data_f this = None \<longrightarrow>
        FrameClock_format lib no_diff this
          = str lib \<lparr>changed_base_color = False, content = clock_time_format cur\<rparr>)
   \<and> (\<not> no_diff \<and> prev_data_f this = Some p \<longrightarrow>
        FrameClock_format lib no_diff this
          = str lib
              \<lparr>changed_base_color = (clock_time_format p \<noteq> clock_time_format cur),
               content = marked lib (clock_time_format p) (clock_time_format cur)
                         @ drop (length (clock_time_format p)) (clock_time_format cur)\<rparr>
      \<and> (two_digit_counters p \<and> two_digit_counters cur \<longrightarrow>
           length (clock_time_format p) = length (clock_time_format cur)
         \<and> FrameClock_format lib no_diff this
             = str lib
                 \<lparr>changed_base_color = (clock_time_format p \<noteq> clock_time_format cur),
                  content = marked lib (clock_time_format p) (clock_time_format cur)\<rparr>))"
proof (intro impI conjI)
  assume "data_f this = Some cur" and "no_diff \<or> prev_data_f this = None"
  then show "FrameClock_format lib no_diff this
      = str lib \<lparr>changed_base_color = False, content = clock_time_format cur\<rparr>"
    by (rule FrameClock_format_no_diff)
next
  assume "data_f this = Some cur" and "\<not> no_diff \<and> prev_data_f this = Some p"
  then show "FrameClock_format lib no_diff this
      = str lib
          \<lparr>changed_base_color = (clock_time_format p \<noteq> clock_time_format cur),
           content = marked lib (clock_time_format p) (clock_time_format cur)
                     @ drop (length (clock_time_format p)) (clock_time_format cur)\<rparr>"
    by (simp add: FrameClock_format_previous)
next
  assume "two_digit_counters p \<and> two_digit_counters cur"
  then show "length (clock_time_format p) = length (clock_time_format cur)"
    by (simp add: two_digit_counters_length)
next
  assume "data_f this = Some cur" and "\<not> no_diff \<and> prev_data_f this = Some p"
    and "two_digit_counters p \<and> two_digit_counters cur"
  then show "FrameClock_format lib no_diff this
      = str lib
          \<lparr>changed_base_color = (clock_time_format p \<noteq> clock_time_format cur),
           content = marked lib (clock_time_format p) (clock_time_format cur)\<rparr>"
    by (simp add: FrameClock_format_previous two_digit_counters_length)
qed

text \<open>
  Current 0024/01/02 - 03:04 against previous 0024/01/02 - 03:05: only the last minute
  character is wrapped; with \<open>no_diff\<close> true, or with no previous payload, nothing is.
\<close>

theorem FrameClock_format_diff_witness:
  "(let f = \<lparr>base = frame0, data_f = Some clock_0304,
              prev_data_f = Some clock_0305\<rparr>
    in data_f f = Some clock_0304
     \<and> two_digit_counters clock_0304 \<and> two_digit_counters clock_0305
     \<and> FrameClock_format lib0 False f = ''0024/01/02 - 03:0[4]''
     \<and> FrameClock_format lib0 True f = ''0024/01/02 - 03:04''
     \<and> FrameClock_format lib0 False (f\<lparr>prev_data_f := None\<rparr>) = ''0024/01/02 - 03:04'')"
proof -
  have two: "two_digit_counters clock_0304" "two_digit_counters clock_0305"
    by (simp_all add: two_digit_counters_def clock_0304_def clock_0305_def)
  show ?thesis
    using two
      FrameClock_format_diff [of "\<lparr>base = frame0, data_f = Some clock_0304,
              prev_data_f = Some clock_0305\<rparr>" clock_0304 False lib0 clock_0305]
      FrameClock_format_diff [of "\<lparr>base = frame0, data_f = Some clock_0304,
              prev_data_f = Some clock_0305\<rparr>" clock_0304 True lib0 clock_0305]
      FrameClock_format_diff [of "\<lparr>base = frame0, data_f = Some clock_0304,
              prev_data_f = None\<rparr>" clock_0304 False lib0 clock_0305]
    by (simp add: Let_def format_0304 format_0305 marked_def lib0_def)
qed

end
